theory Spec2Isabelle
  imports Complex_Main
begin

section \<open>JavaScript values read by the Lambda\<close>

text \<open>
  The fields of the CodePipeline event and the environment variables are strings that
  may be missing. A missing property reads as \<open>undefined\<close>; a JSON event can also carry
  \<open>null\<close>. Numbers, booleans and nested objects in these fields are outside the event
  shape and are not modelled.
\<close>

datatype jsval = JUndefined | JNull | JString string

text \<open>ToBoolean, as used by \<open>if (action)\<close>, \<open>if (stage)\<close>, \<open>if (webhookUrl)\<close>.\<close>

fun truthy :: "jsval \<Rightarrow> bool" where
  "truthy (JString s) = (s \<noteq> [])"
| "truthy JUndefined = False"
| "truthy JNull = False"

text \<open>ToString, as applied by a template literal to an interpolated value.\<close>

fun template :: "jsval \<Rightarrow> string" where
  "template (JString s) = s"
| "template JUndefined = ''undefined''"
| "template JNull = ''null''"

text \<open>Number-to-string of a non-negative integer (the HTTP status code).\<close>

definition digit_char :: "nat \<Rightarrow> char" where
  "digit_char n = ''0123456789'' ! n"

fun number_string :: "nat \<Rightarrow> string" where
  "number_string n =
     (if n < 10 then [digit_char n] else number_string (n div 10) @ [digit_char (n mod 10)])"

section \<open>Data model\<close>

text \<open>\<open>message.detail\<close> of the inbound event.\<close>

record event_detail =
  action :: jsval
  stage :: jsval
  pipeline :: jsval
  state :: jsval

text \<open>
  The inbound event. \<open>detail_type\<close> is the property \<open>"detail-type"\<close>. \<open>detail\<close> is
  \<open>None\<close> when the event has no \<open>detail\<close> object, in which case reading
  \<open>message.detail.action\<close> raises a TypeError.
\<close>

record pipeline_event =
  detail_type :: jsval
  region :: jsval
  time :: jsval
  detail :: "event_detail option"

text \<open>
  One Slack attachment; \<open>att_text\<close> is its property \<open>text\<close>. \<open>ts\<close> is a
  JavaScript number: \<open>None\<close> stands for NaN, and a finite value is kept as the exact
  quotient (the rounding of the quotient to the nearest IEEE double is not part of the
  model).
\<close>

record attachment =
  fallback :: string
  color :: string
  title :: string
  title_link :: string
  att_text :: string
  footer :: string
  mrkdwn_in :: "string list"
  ts :: "rat option"

record chat_message =
  channel :: jsval
  attachments :: "attachment list"

text \<open>The module-level constants read from \<open>process.env\<close> when the module is loaded.\<close>

record config =
  slackChannel :: jsval
  environment :: jsval
  env_region :: jsval
  webhookUrlSecretArn :: jsval

text \<open>
  Library functions of the runtime that the module calls and that are not part of the
  repository, taken as parameters: \<open>date_getTime v\<close> is \<open>new Date(v).getTime()\<close>
  (milliseconds since the epoch, \<open>None\<close> for NaN), and \<open>base64_ascii b\<close> is
  \<open>new Buffer(b, 'base64').toString('ascii')\<close>.
\<close>

record platform =
  date_getTime :: "jsval \<Rightarrow> int option"
  base64_ascii :: "string \<Rightarrow> string"

text \<open>The module-level mutable variables.\<close>

record proc_state =
  webhookUrl :: jsval
  secret :: jsval
  decodedBinarySecret :: jsval

definition init_state :: proc_state where
  "init_state = \<lparr>webhookUrl = JUndefined, secret = JUndefined, decodedBinarySecret = JUndefined\<rparr>"

text \<open>
  The \<open>data\<close> object of a successful \<open>getSecretValue\<close>. \<open>SecretString\<close> is \<open>None\<close>
  when the key is not in the object (the test \<open>'SecretString' in data\<close>).
\<close>

record secret_data =
  SecretString :: "jsval option"
  SecretBinary :: jsval

text \<open>What the Secrets Manager client passes to the callback: \<open>err\<close> (by its code) or \<open>data\<close>.\<close>

datatype secret_reply = SecretErr string | SecretData secret_data

record response =
  body :: string
  statusCode :: nat
  statusMessage :: string

text \<open>
  What the HTTPS request ends with: a full response, or an \<open>error\<close> event on the request,
  for which the module registers no listener.
\<close>

datatype http_reply = Response response | RequestFailed

datatype js_error = TypeError | SecretsManagerError string | UnhandledRequestError

text \<open>How an invocation ends: the Lambda callback is called with a value, or an exception escapes.\<close>

datatype outcome = Callback jsval | Thrown js_error

text \<open>What the module does to the outside world, in order.\<close>

datatype effect =
    GetSecretValue jsval
  | ConsoleWarn string
  | ConsoleInfo string
  | ConsoleError string
  | HttpsPost string chat_message

section \<open>processEvent\<close>

text \<open>The \<open>switch (state)\<close> of processEvent: the pair (color, icon), compared with \<open>===\<close>.\<close>

definition severity :: "jsval \<Rightarrow> string \<times> string" where
  "severity st =
     (if st = JString ''STARTED'' then (''#0073bb'', '':arrows_counterclockwise:'')
      else if st = JString ''RESUMED'' then (''#0073bb'', '':arrows_counterclockwise:'')
      else if st = JString ''FAILED'' then (''#d13212'', '':x:'')
      else if st = JString ''SUPERSEDED'' \<or> st = JString ''CANCELED''
        then (''#d5dbdb'', '':grey_exclamation:'')
      else if st = JString ''SUCCEEDED'' then (''#1d8102'', '':heavy_check_mark:'')
      else (''#d5dbdb'', '':grey_exclamation:''))"

definition console_link :: "jsval \<Rightarrow> jsval \<Rightarrow> string" where
  "console_link rg pl =
     ''https://console.aws.amazon.com/codepipeline/home?region='' @ template rg
       @ ''#/view/'' @ template pl"

text \<open>
  The first part of processEvent, up to the call of postMessage: the construction of
  \<open>slackMessage\<close>.
\<close>

definition buildSlackMessage :: "platform \<Rightarrow> config \<Rightarrow> pipeline_event \<Rightarrow> js_error + chat_message" where
  "buildSlackMessage pf cfg message =
     (let detailType = detail_type message;
          rg = region message;
          tm = map_option (\<lambda>ms. (of_int ms :: rat) / 1000) (date_getTime pf (time message))
      in case detail message of
           None \<Rightarrow> Inl TypeError
         | Some d \<Rightarrow>
             (let act = action d; stg = stage d; pl = pipeline d; st = state d;
                  (clr, icon) = severity st
              in if truthy act then
                   Inr \<lparr>channel = slackChannel cfg,
                        attachments = [\<lparr>
                          fallback = ''The action \"'' @ template act @ ''\" of the stage \"''
                            @ template stg @ ''\" for CodePipeline \"'' @ template pl
                            @ ''\" in region \"'' @ template rg @ ''\" has '' @ template st @ ''.'',
                          color = clr,
                          title = template pl @ '' | '' @ template stg,
                          title_link = console_link rg pl,
                          att_text = icon @ '' '' @ template act @ '' *'' @ template st @ ''*'',
                          footer = template detailType @ '' | '' @ template rg,
                          mrkdwn_in = [''text''],
                          ts = tm\<rparr>]\<rparr>
                 else if truthy stg then
                   Inr \<lparr>channel = slackChannel cfg,
                        attachments = [\<lparr>
                          fallback = ''The stage \"'' @ template stg @ ''\" for CodePipeline \"''
                            @ template pl @ ''\" in region \"'' @ template rg @ ''\" has ''
                            @ template st @ ''.'',
                          color = clr,
                          title = template pl @ '' | '' @ template stg,
                          title_link = console_link rg pl,
                          att_text = icon @ '' *'' @ template st @ ''*'',
                          footer = template detailType @ '' | '' @ template rg,
                          mrkdwn_in = [''text''],
                          ts = tm\<rparr>]\<rparr>
                 else
                   Inr \<lparr>channel = slackChannel cfg,
                        attachments = [\<lparr>
                          fallback = ''The CodePipeline \"'' @ template pl @ ''\" in region \"''
                            @ template rg @ ''\" has '' @ template st @ ''.'',
                          color = clr,
                          title = template pl,
                          title_link = console_link rg pl,
                          att_text = icon @ '' *'' @ template st @ ''*'',
                          footer = template detailType @ '' | '' @ template rg,
                          mrkdwn_in = [''text''],
                          ts = tm\<rparr>]\<rparr>))"

section \<open>postMessage and the response callback\<close>

text \<open>
  postMessage: \<open>url.parse\<close> raises a TypeError on a value that is not a string; otherwise
  one POST is sent to the webhook URL with the serialised message as its body (the body
  is kept here as the message itself), and the callback receives the response.
\<close>

definition postMessage :: "proc_state \<Rightarrow> chat_message \<Rightarrow> http_reply \<Rightarrow> effect list \<times> (js_error + response)" where
  "postMessage s message reply =
     (case webhookUrl s of
        JString u \<Rightarrow>
          ([HttpsPost u message],
           case reply of Response res \<Rightarrow> Inr res | RequestFailed \<Rightarrow> Inl UnhandledRequestError)
      | JUndefined \<Rightarrow> ([], Inl TypeError)
      | JNull \<Rightarrow> ([], Inl TypeError))"

text \<open>The callback that processEvent passes to postMessage.\<close>

definition onResponse :: "response \<Rightarrow> effect list \<times> outcome" where
  "onResponse res =
     (if statusCode res < 400 then
        ([ConsoleInfo ''Message posted successfully''], Callback JNull)
      else if statusCode res < 500 then
        ([ConsoleError (''Error posting message to Slack API: '' @ number_string (statusCode res)
            @ '' - '' @ statusMessage res)],
         Callback JNull)
      else
        ([], Callback (JString (''Server error when processing message: ''
            @ number_string (statusCode res) @ '' - '' @ statusMessage res))))"

definition processEvent :: "platform \<Rightarrow> config \<Rightarrow> proc_state \<Rightarrow> pipeline_event \<Rightarrow> http_reply \<Rightarrow> effect list \<times> outcome" where
  "processEvent pf cfg s message reply =
     (case buildSlackMessage pf cfg message of
        Inl e \<Rightarrow> ([], Thrown e)
      | Inr slackMessage \<Rightarrow>
          (case postMessage s slackMessage reply of
             (fx, Inl e) \<Rightarrow> (fx, Thrown e)
           | (fx, Inr res) \<Rightarrow> (fx @ fst (onResponse res), snd (onResponse res))))"

section \<open>handler\<close>

text \<open>The error codes for which the \<open>getSecretValue\<close> callback rethrows \<open>err\<close>.\<close>

definition rethrown :: "string \<Rightarrow> bool" where
  "rethrown code =
     (code = ''DecryptionFailureException'' \<or> code = ''InternalServiceErrorException''
      \<or> code = ''InvalidParameterException'' \<or> code = ''InvalidRequestException''
      \<or> code = ''ResourceNotFoundException'')"

text \<open>
  The last two statements of the \<open>getSecretValue\<close> callback: the assignment of
  \<open>webhookUrl\<close> and the call of processEvent.
\<close>

definition cacheAndProcess :: "platform \<Rightarrow> config \<Rightarrow> proc_state \<Rightarrow> effect list \<Rightarrow> pipeline_event \<Rightarrow> http_reply \<Rightarrow> proc_state \<times> effect list \<times> outcome" where
  "cacheAndProcess pf cfg s fx event hreply =
     (let s' = s\<lparr>webhookUrl := JString (''https://'' @ template (secret s))\<rparr>;
          r = processEvent pf cfg s' event hreply
      in (s', fx @ fst r, snd r))"

text \<open>
  One invocation of \<open>exports.handler\<close>: the process state before, the event, and what
  the secret store and the webhook answer if they are asked. The result is the process
  state after, the effects in order, and how the invocation ends.
\<close>

definition handler :: "platform \<Rightarrow> config \<Rightarrow> proc_state \<Rightarrow> pipeline_event \<Rightarrow> secret_reply \<Rightarrow> http_reply \<Rightarrow> proc_state \<times> effect list \<times> outcome" where
  "handler pf cfg s event sreply hreply =
     (if truthy (webhookUrl s) then
        (s, processEvent pf cfg s event hreply)
      else if truthy (webhookUrlSecretArn cfg) then
        (case sreply of
           SecretErr code \<Rightarrow>
             (let fx = [GetSecretValue (webhookUrlSecretArn cfg),
                        ConsoleWarn (''Secrets Manager Error: '' @ code)]
              in if rethrown code then (s, fx, Thrown (SecretsManagerError code))
                 else cacheAndProcess pf cfg s fx event hreply)
         | SecretData data \<Rightarrow>
             (case SecretString data of
                Some v \<Rightarrow>
                  cacheAndProcess pf cfg (s\<lparr>secret := v\<rparr>)
                    [GetSecretValue (webhookUrlSecretArn cfg)] event hreply
              | None \<Rightarrow>
                  (case SecretBinary data of
                     JString b \<Rightarrow>
                       cacheAndProcess pf cfg
                         (s\<lparr>decodedBinarySecret := JString (base64_ascii pf b)\<rparr>)
                         [GetSecretValue (webhookUrlSecretArn cfg)] event hreply
                   | JUndefined \<Rightarrow> (s, [GetSecretValue (webhookUrlSecretArn cfg)], Thrown TypeError)
                   | JNull \<Rightarrow> (s, [GetSecretValue (webhookUrlSecretArn cfg)], Thrown TypeError))))
      else
        (s, [], Callback (JString ''Hook URL has not been set.'')))"

section \<open>A process: successive invocations on the same module state\<close>

record invocation =
  inv_event :: pipeline_event
  inv_secret :: secret_reply
  inv_http :: http_reply

text \<open>The results of successive invocations, each starting from the state the previous one left.\<close>

fun invocations :: "platform \<Rightarrow> config \<Rightarrow> proc_state \<Rightarrow> invocation list \<Rightarrow> (proc_state \<times> effect list \<times> outcome) list" where
  "invocations pf cfg s [] = []"
| "invocations pf cfg s (i # rest) =
     (let r = handler pf cfg s (inv_event i) (inv_secret i) (inv_http i)
      in r # invocations pf cfg (fst r) rest)"

fun is_secret_call :: "effect \<Rightarrow> bool" where
  "is_secret_call (GetSecretValue _) = True"
| "is_secret_call _ = False"

text \<open>The messages posted by a list of effects, in order.\<close>

fun posted :: "effect list \<Rightarrow> chat_message list" where
  "posted [] = []"
| "posted (HttpsPost u m # fx) = m # posted fx"
| "posted (_ # fx) = posted fx"

text \<open>The URLs that a list of effects posts to, in order.\<close>

fun post_urls :: "effect list \<Rightarrow> string list" where
  "post_urls [] = []"
| "post_urls (HttpsPost u m # fx) = u # post_urls fx"
| "post_urls (_ # fx) = post_urls fx"

section \<open>Example inputs\<close>

text \<open>
  Concrete inputs for the examples below. \<open>example_platform\<close> gives the runtime's
  answers on the arguments the examples use: the two ISO timestamps parse to 1500 and
  1577836800000 milliseconds, anything else is taken as an invalid date, and the base64
  text of \<open>hooks.slack.com/services/T/B/X\<close> decodes to it.
\<close>

definition example_platform :: platform where
  "example_platform =
     \<lparr>date_getTime = (\<lambda>v. if v = JString ''1970-01-01T00:00:01.500Z'' then Some 1500
                           else if v = JString ''2020-01-01T00:00:00Z'' then Some 1577836800000
                           else None),
      base64_ascii = (\<lambda>b. if b = ''aG9va3Muc2xhY2suY29tL3NlcnZpY2VzL1QvQi9Y''
                           then ''hooks.slack.com/services/T/B/X'' else [])\<rparr>"

definition example_config :: config where
  "example_config =
     \<lparr>slackChannel = JString ''#builds'', environment = JString ''prod'',
      env_region = JString ''us-east-1'',
      webhookUrlSecretArn = JString ''arn:aws:secretsmanager:us-east-1:123456789012:secret:hook''\<rparr>"

text \<open>The same configuration without a secret identifier.\<close>

definition unconfigured :: config where
  "unconfigured = example_config\<lparr>webhookUrlSecretArn := JUndefined\<rparr>"

definition action_event :: pipeline_event where
  "action_event =
     \<lparr>detail_type = JString ''CodePipeline Action Execution State Change'',
      region = JString ''us-east-1'', time = JString ''1970-01-01T00:00:01.500Z'',
      detail = Some \<lparr>action = JString ''Build'', stage = JString ''S'',
                     pipeline = JString ''P'', state = JString ''FAILED''\<rparr>\<rparr>"

definition pipeline_event_no_state :: pipeline_event where
  "pipeline_event_no_state =
     \<lparr>detail_type = JString ''CodePipeline Pipeline Execution State Change'',
      region = JString ''us-east-1'', time = JString ''2020-01-01T00:00:00Z'',
      detail = Some \<lparr>action = JUndefined, stage = JUndefined,
                     pipeline = JString ''P'', state = JUndefined\<rparr>\<rparr>"

definition mixed_case_event :: pipeline_event where
  "mixed_case_event =
     \<lparr>detail_type = JString ''CodePipeline Stage Execution State Change'',
      region = JString ''us-east-1'', time = JString ''2020-01-01T00:00:00Z'',
      detail = Some \<lparr>action = JString [], stage = JString ''Deploy'',
                     pipeline = JString ''P'', state = JString ''Succeeded''\<rparr>\<rparr>"

definition text_secret :: secret_reply where
  "text_secret =
     SecretData \<lparr>SecretString = Some (JString ''hooks.slack.com/services/T/B/X''),
                 SecretBinary = JUndefined\<rparr>"

definition binary_secret :: secret_reply where
  "binary_secret =
     SecretData \<lparr>SecretString = None,
                 SecretBinary = JString ''aG9va3Muc2xhY2suY29tL3NlcnZpY2VzL1QvQi9Y''\<rparr>"

definition http_reply_of :: "nat \<Rightarrow> string \<Rightarrow> http_reply" where
  "http_reply_of code msg = Response \<lparr>body = [], statusCode = code, statusMessage = msg\<rparr>"

section \<open>Auxiliary facts\<close>

declare number_string.simps [simp del]

lemma build_some:
  "detail ev = Some d \<Longrightarrow>
   buildSlackMessage pf cfg ev =
     Inr \<lparr>channel = slackChannel cfg,
          attachments = [\<lparr>
            fallback =
              (if truthy (action d) then
                 ''The action \"'' @ template (action d) @ ''\" of the stage \"''
                   @ template (stage d) @ ''\" for CodePipeline \"'' @ template (pipeline d)
                   @ ''\" in region \"'' @ template (region ev) @ ''\" has ''
                   @ template (state d) @ ''.''
               else if truthy (stage d) then
                 ''The stage \"'' @ template (stage d) @ ''\" for CodePipeline \"''
                   @ template (pipeline d) @ ''\" in region \"'' @ template (region ev)
                   @ ''\" has '' @ template (state d) @ ''.''
               else
                 ''The CodePipeline \"'' @ template (pipeline d) @ ''\" in region \"''
                   @ template (region ev) @ ''\" has '' @ template (state d) @ ''.''),
            color = fst (severity (state d)),
            title =
              (if truthy (action d) \<or> truthy (stage d)
               then template (pipeline d) @ '' | '' @ template (stage d)
               else template (pipeline d)),
            title_link = console_link (region ev) (pipeline d),
            att_text =
              (if truthy (action d)
               then snd (severity (state d)) @ '' '' @ template (action d) @ '' *''
                      @ template (state d) @ ''*''
               else snd (severity (state d)) @ '' *'' @ template (state d) @ ''*''),
            footer = template (detail_type ev) @ '' | '' @ template (region ev),
            mrkdwn_in = [''text''],
            ts = map_option (\<lambda>ms. of_int ms / 1000) (date_getTime pf (time ev))\<rparr>]\<rparr>"
  by (simp add: buildSlackMessage_def Let_def split_def)

lemma build_none: "detail ev = None \<Longrightarrow> buildSlackMessage pf cfg ev = Inl TypeError"
  by (simp add: buildSlackMessage_def)

lemma posted_append: "posted (fx @ gx) = posted fx @ posted gx"
  by (induction fx rule: posted.induct) simp_all

lemma posted_onResponse: "posted (fst (onResponse res)) = []"
  by (simp add: onResponse_def)

lemma secret_calls_onResponse: "e \<in> set (fst (onResponse res)) \<Longrightarrow> \<not> is_secret_call e"
  by (auto simp: onResponse_def split: if_splits)

text \<open>processEvent posts the built message at most once, and never asks the secret store.\<close>

lemma processEvent_posted:
  "posted (fst (processEvent pf cfg s ev hr)) = []
   \<or> (\<exists>m. buildSlackMessage pf cfg ev = Inr m \<and> posted (fst (processEvent pf cfg s ev hr)) = [m])"
  by (auto simp: processEvent_def postMessage_def posted_append posted_onResponse
      split: sum.splits jsval.splits http_reply.splits)

lemma processEvent_no_secret_call:
  "e \<in> set (fst (processEvent pf cfg s ev hr)) \<Longrightarrow> \<not> is_secret_call e"
  by (auto simp: processEvent_def postMessage_def dest: secret_calls_onResponse
      split: sum.splits jsval.splits http_reply.splits)

lemma handler_cached:
  "truthy (webhookUrl s) \<Longrightarrow> handler pf cfg s ev sr hr = (s, processEvent pf cfg s ev hr)"
  by (simp add: handler_def)

lemma cacheAndProcess_truthy:
  "truthy (webhookUrl (fst (cacheAndProcess pf cfg s fx ev hr)))"
  by (simp add: cacheAndProcess_def Let_def)

lemma cacheAndProcess_posted:
  "posted fx = [] \<Longrightarrow>
   posted (fst (snd (cacheAndProcess pf cfg s fx ev hr))) = []
   \<or> (\<exists>m. buildSlackMessage pf cfg ev = Inr m
         \<and> posted (fst (snd (cacheAndProcess pf cfg s fx ev hr))) = [m])"
  using processEvent_posted [of pf cfg _ ev hr]
  by (simp add: cacheAndProcess_def Let_def posted_append)

text \<open>An invocation either leaves \<open>webhookUrl\<close> as it was or leaves it truthy.\<close>

lemma handler_webhookUrl:
  "webhookUrl (fst (handler pf cfg s ev sr hr)) = webhookUrl s
   \<or> truthy (webhookUrl (fst (handler pf cfg s ev sr hr)))"
  by (auto simp: handler_def Let_def cacheAndProcess_truthy
      split: secret_reply.splits option.splits jsval.splits)

lemma handler_posted:
  "posted (fst (snd (handler pf cfg s ev sr hr))) = []
   \<or> (\<exists>m. buildSlackMessage pf cfg ev = Inr m
         \<and> posted (fst (snd (handler pf cfg s ev sr hr))) = [m])"
proof (cases "truthy (webhookUrl s)")
  case True
  then show ?thesis
    using processEvent_posted [of pf cfg s ev hr] by (simp add: handler_def)
next
  case False
  have c: "\<And>s' fx. posted fx = [] \<Longrightarrow>
      posted (fst (snd (cacheAndProcess pf cfg s' fx ev hr))) = []
      \<or> (\<exists>m. buildSlackMessage pf cfg ev = Inr m
            \<and> posted (fst (snd (cacheAndProcess pf cfg s' fx ev hr))) = [m])"
    by (rule cacheAndProcess_posted)
  show ?thesis
  proof (cases "truthy (webhookUrlSecretArn cfg)")
    case arn: True
    show ?thesis
    proof (cases sr)
      case (SecretErr code)
      with False arn show ?thesis
        using c [of "[GetSecretValue (webhookUrlSecretArn cfg),
                      ConsoleWarn (''Secrets Manager Error: '' @ code)]" s]
        by (simp add: handler_def Let_def)
    next
      case (SecretData data)
      with False arn show ?thesis
        using c [of "[GetSecretValue (webhookUrlSecretArn cfg)]"]
        by (simp add: handler_def split: option.splits jsval.splits)
    qed
  next
    case noarn: False
    with False show ?thesis by (simp add: handler_def)
  qed
qed

lemma post_urls_append: "post_urls (fx @ gx) = post_urls fx @ post_urls gx"
  by (induction fx rule: post_urls.induct) simp_all

lemma post_urls_onResponse: "post_urls (fst (onResponse res)) = []"
  by (simp add: onResponse_def)

lemma processEvent_post_urls:
  "u \<in> set (post_urls (fst (processEvent pf cfg s ev hr))) \<Longrightarrow> JString u = webhookUrl s"
  by (auto simp: processEvent_def postMessage_def post_urls_append post_urls_onResponse
      split: sum.splits jsval.splits http_reply.splits)

lemma build_ex: "detail ev \<noteq> None \<Longrightarrow> \<exists>m. buildSlackMessage pf cfg ev = Inr m"
  by (auto dest: build_some)

lemma detail_action_event: "detail action_event \<noteq> None"
  by (simp add: action_event_def)

lemma arn_example_config: "truthy (webhookUrlSecretArn example_config)"
  by (simp add: example_config_def)

lemma unconfigured_invocations:
  "\<not> truthy (webhookUrlSecretArn cfg) \<Longrightarrow> \<not> truthy (webhookUrl s) \<Longrightarrow>
   r \<in> set (invocations pf cfg s invs) \<Longrightarrow>
   r = (s, [], Callback (JString ''Hook URL has not been set.''))"
  by (induction invs) (auto simp: handler_def Let_def)

text \<open>Once \<open>webhookUrl\<close> is truthy, invocations only read it.\<close>

lemma cached_invocations:
  "truthy (webhookUrl s) \<Longrightarrow> r \<in> set (invocations pf cfg s invs) \<Longrightarrow>
   fst r = s \<and> (\<forall>e \<in> set (fst (snd r)). \<not> is_secret_call e)
   \<and> (\<forall>u \<in> set (post_urls (fst (snd r))). JString u = webhookUrl s)"
proof (induction invs)
  case Nil
  then show ?case by simp
next
  case (Cons i invs)
  have h: "handler pf cfg s (inv_event i) (inv_secret i) (inv_http i)
             = (s, processEvent pf cfg s (inv_event i) (inv_http i))"
    using Cons.prems(1) by (rule handler_cached)
  show ?case
  proof (cases "r = handler pf cfg s (inv_event i) (inv_secret i) (inv_http i)")
    case True
    then show ?thesis
      using h processEvent_no_secret_call [of _ pf cfg s "inv_event i" "inv_http i"]
        processEvent_post_urls [of _ pf cfg s "inv_event i" "inv_http i"]
      by auto
  next
    case False
    then have "r \<in> set (invocations pf cfg s invs)"
      using Cons.prems(2) h by (simp add: Let_def)
    then show ?thesis
      using Cons.IH Cons.prems(1) by blast
  qed
qed

section \<open>Severity mapping\<close>

text \<open>
  C1 (as stated, refuted): the claim calls the severity table case-insensitive. The
  \<open>switch\<close> compares with strict equality: the lower-case state \<open>started\<close> gets the
  default gray color and warning icon, not the blue color and cycle icon of \<open>STARTED\<close>.
\<close>

theorem severity_lowercase_counterexample:
  "severity (JString ''started'') = (''#d5dbdb'', '':grey_exclamation:'')
   \<and> severity (JString ''started'') \<noteq> (''#0073bb'', '':arrows_counterclockwise:'')
   \<and> severity (JString ''STARTED'') = (''#0073bb'', '':arrows_counterclockwise:'')"
  by (simp add: severity_def)

text \<open>
  C1 (amended): for every event with a \<open>detail\<close> object, the color of the single
  attachment and the icon that starts its text follow a total, case-sensitive table:
  exactly STARTED and RESUMED give blue and the cycle icon, exactly FAILED gives red and
  the X icon, exactly SUPERSEDED and CANCELED give gray and the warning icon, exactly
  SUCCEEDED gives green and the check icon, and every other value (any other string, in
  any other letter case, or a missing state) gives the default gray and warning icon.
\<close>

theorem severity_table:
  assumes "detail ev = Some d"
  shows "\<exists>m a icon rest.
           buildSlackMessage pf cfg ev = Inr m \<and> attachments m = [a]
           \<and> att_text a = icon @ '' '' @ rest
           \<and> (color a, icon) =
                (if state d \<in> {JString ''STARTED'', JString ''RESUMED''}
                   then (''#0073bb'', '':arrows_counterclockwise:'')
                 else if state d = JString ''FAILED'' then (''#d13212'', '':x:'')
                 else if state d \<in> {JString ''SUPERSEDED'', JString ''CANCELED''}
                   then (''#d5dbdb'', '':grey_exclamation:'')
                 else if state d = JString ''SUCCEEDED''
                   then (''#1d8102'', '':heavy_check_mark:'')
                 else (''#d5dbdb'', '':grey_exclamation:''))"
proof -
  let ?icon = "snd (severity (state d))"
  let ?a = "hd (attachments (projr (buildSlackMessage pf cfg ev)))"
  have body: "\<exists>rest. att_text ?a = ?icon @ '' '' @ rest"
    by (simp add: build_some [OF assms])
  have tab: "(color ?a, ?icon) =
                (if state d \<in> {JString ''STARTED'', JString ''RESUMED''}
                   then (''#0073bb'', '':arrows_counterclockwise:'')
                 else if state d = JString ''FAILED'' then (''#d13212'', '':x:'')
                 else if state d \<in> {JString ''SUPERSEDED'', JString ''CANCELED''}
                   then (''#d5dbdb'', '':grey_exclamation:'')
                 else if state d = JString ''SUCCEEDED''
                   then (''#1d8102'', '':heavy_check_mark:'')
                 else (''#d5dbdb'', '':grey_exclamation:''))"
    by (simp add: build_some [OF assms] severity_def)
  have one: "buildSlackMessage pf cfg ev = Inr (projr (buildSlackMessage pf cfg ev))
             \<and> attachments (projr (buildSlackMessage pf cfg ev)) = [?a]"
    by (simp add: build_some [OF assms])
  from body obtain rest where "att_text ?a = ?icon @ '' '' @ rest" by blast
  with tab one show ?thesis by blast
qed

theorem severity_table_witness:
  "\<exists>m a icon rest.
     buildSlackMessage example_platform example_config mixed_case_event = Inr m
     \<and> attachments m = [a] \<and> att_text a = icon @ '' '' @ rest
     \<and> (color a, icon) = (''#d5dbdb'', '':grey_exclamation:'')"
  using severity_table [of mixed_case_event
      "\<lparr>action = JString [], stage = JString ''Deploy'', pipeline = JString ''P'',
        state = JString ''Succeeded''\<rparr>" example_platform example_config]
  by (simp add: mixed_case_event_def)

section \<open>Granularity\<close>

text \<open>
  C2: for every event with a \<open>detail\<close> object the three message shapes are chosen by
  the first test that succeeds. With an action (a non-empty string) the title is
  \<open>{pipeline} | {stage}\<close> and the text is the icon, the action and the state between
  asterisks; otherwise, with a stage (a non-empty string), the title is the same and the
  text is \<open>{icon} *{state}*\<close>, without the action; otherwise the title is exactly the
  pipeline name. The placeholders are filled as a template literal fills them.
\<close>

theorem granularity_first_match:
  assumes "detail ev = Some d"
  shows "\<exists>m a. buildSlackMessage pf cfg ev = Inr m \<and> attachments m = [a]
           \<and> (if truthy (action d) then
                 title a = template (pipeline d) @ '' | '' @ template (stage d)
                 \<and> att_text a = snd (severity (state d)) @ '' '' @ template (action d)
                      @ '' *'' @ template (state d) @ ''*''
                 \<and> fallback a = ''The action \"'' @ template (action d)
                      @ ''\" of the stage \"'' @ template (stage d)
                      @ ''\" for CodePipeline \"'' @ template (pipeline d)
                      @ ''\" in region \"'' @ template (region ev) @ ''\" has ''
                      @ template (state d) @ ''.''
               else if truthy (stage d) then
                 title a = template (pipeline d) @ '' | '' @ template (stage d)
                 \<and> att_text a = snd (severity (state d)) @ '' *'' @ template (state d) @ ''*''
                 \<and> fallback a = ''The stage \"'' @ template (stage d)
                      @ ''\" for CodePipeline \"'' @ template (pipeline d)
                      @ ''\" in region \"'' @ template (region ev) @ ''\" has ''
                      @ template (state d) @ ''.''
               else
                 title a = template (pipeline d)
                 \<and> att_text a = snd (severity (state d)) @ '' *'' @ template (state d) @ ''*''
                 \<and> fallback a = ''The CodePipeline \"'' @ template (pipeline d)
                      @ ''\" in region \"'' @ template (region ev) @ ''\" has ''
                      @ template (state d) @ ''.'')"
  by (simp add: build_some [OF assms])

theorem granularity_first_match_witness:
  "\<exists>m a. buildSlackMessage example_platform example_config action_event = Inr m
     \<and> attachments m = [a] \<and> title a = ''P | S'' \<and> att_text a = '':x: Build *FAILED*''
     \<and> fallback a = ''The action \"Build\" of the stage \"S\" for CodePipeline \"P\" in region \"us-east-1\" has FAILED.''"
  using granularity_first_match [of action_event
      "\<lparr>action = JString ''Build'', stage = JString ''S'', pipeline = JString ''P'',
        state = JString ''FAILED''\<rparr>" example_platform example_config]
  by (simp add: action_event_def severity_def)

section \<open>Binary secret\<close>

text \<open>
  C3 (the code departs from the claim): when the secret store returns the secret in
  binary form only, the callback decodes it into \<open>decodedBinarySecret\<close> and then builds
  the webhook URL from \<open>secret\<close>, which is still undefined in a fresh process: the
  cached URL and the URL posted to are \<open>https://undefined\<close>, whatever the decoded value.
\<close>

theorem binary_secret_not_used:
  "fst (handler pf example_config init_state action_event binary_secret hr)
     = \<lparr>webhookUrl = JString ''https://undefined'', secret = JUndefined,
        decodedBinarySecret =
          JString (base64_ascii pf ''aG9va3Muc2xhY2suY29tL3NlcnZpY2VzL1QvQi9Y'')\<rparr>
   \<and> post_urls (fst (snd (handler pf example_config init_state action_event binary_secret hr)))
       = [''https://undefined'']"
proof -
  obtain m where m: "buildSlackMessage pf example_config action_event = Inr m"
    using build_ex [OF detail_action_event] by blast
  show ?thesis
    by (cases hr)
      (simp_all add: handler_def cacheAndProcess_def processEvent_def postMessage_def
        post_urls_append post_urls_onResponse Let_def m init_state_def arn_example_config
        binary_secret_def)
qed

section \<open>Delivery classification\<close>

text \<open>
  C4: when the message is built and posted and the webhook answers, the invocation ends
  by the status code: below 400 the callback is called with no error; from 400 to 499 an
  error line is logged and the callback is again called with no error; from 500 on the
  callback is called with the error text made of the status code and the status message.
\<close>

theorem delivery_classification:
  assumes "detail ev = Some d" and "webhookUrl s = JString u"
  shows "snd (processEvent pf cfg s ev (Response res)) =
           (if statusCode res < 400 then Callback JNull
            else if statusCode res < 500 then Callback JNull
            else Callback (JString (''Server error when processing message: ''
                   @ number_string (statusCode res) @ '' - '' @ statusMessage res)))
         \<and> (400 \<le> statusCode res \<and> statusCode res < 500 \<longrightarrow>
              ConsoleError (''Error posting message to Slack API: ''
                @ number_string (statusCode res) @ '' - '' @ statusMessage res)
              \<in> set (fst (processEvent pf cfg s ev (Response res))))
         \<and> post_urls (fst (processEvent pf cfg s ev (Response res))) = [u]"
  using assms
  by (simp add: processEvent_def postMessage_def onResponse_def build_some [OF assms(1)])

theorem delivery_classification_witness:
  "snd (processEvent example_platform example_config
          (init_state\<lparr>webhookUrl := JString ''https://hooks.slack.com/services/T/B/X''\<rparr>)
          action_event (http_reply_of 200 ''OK'')) = Callback JNull
   \<and> snd (processEvent example_platform example_config
          (init_state\<lparr>webhookUrl := JString ''https://hooks.slack.com/services/T/B/X''\<rparr>)
          action_event (http_reply_of 404 ''Not Found'')) = Callback JNull
   \<and> snd (processEvent example_platform example_config
          (init_state\<lparr>webhookUrl := JString ''https://hooks.slack.com/services/T/B/X''\<rparr>)
          action_event (http_reply_of 503 ''Service Unavailable''))
       = Callback (JString ''Server error when processing message: 503 - Service Unavailable'')"
proof -
  let ?s = "init_state\<lparr>webhookUrl := JString ''https://hooks.slack.com/services/T/B/X''\<rparr>"
  let ?d = "\<lparr>action = JString ''Build'', stage = JString ''S'', pipeline = JString ''P'',
             state = JString ''FAILED''\<rparr>"
  have d: "detail action_event = Some ?d"
    by (simp add: action_event_def)
  have u: "webhookUrl ?s = JString ''https://hooks.slack.com/services/T/B/X''"
    by simp
  have n: "number_string 503 = ''503''"
    by (simp add: number_string.simps digit_char_def)
  note c = delivery_classification [OF d u, of example_platform example_config]
  show ?thesis
    using c [of "\<lparr>body = [], statusCode = 200, statusMessage = ''OK''\<rparr>"]
      c [of "\<lparr>body = [], statusCode = 404, statusMessage = ''Not Found''\<rparr>"]
      c [of "\<lparr>body = [], statusCode = 503, statusMessage = ''Service Unavailable''\<rparr>"]
    by (simp add: http_reply_of_def n)
qed

section \<open>Timestamp\<close>

text \<open>
  C5: for every event with a \<open>detail\<close> object, the timestamp of the attachment is the
  event time in milliseconds since the epoch, as the runtime's date parsing gives it,
  divided by 1000 and not rounded (an invalid date stays NaN). In particular an event
  time that parses to 1500 milliseconds, as \<open>1970-01-01T00:00:01.500Z\<close> does, gives 1.5
  and not 1500.
\<close>

theorem timestamp_epoch_seconds:
  assumes "detail ev = Some d"
  shows "\<exists>m a. buildSlackMessage pf cfg ev = Inr m \<and> attachments m = [a]
           \<and> ts a = map_option (\<lambda>ms. of_int ms / 1000) (date_getTime pf (time ev))
           \<and> (date_getTime pf (time ev) = Some 1500 \<longrightarrow> ts a = Some 1.5 \<and> ts a \<noteq> Some 1500)"
  by (simp add: build_some [OF assms])

theorem timestamp_epoch_seconds_witness:
  "time action_event = JString ''1970-01-01T00:00:01.500Z''
   \<and> (\<exists>m a. buildSlackMessage example_platform example_config action_event = Inr m
          \<and> attachments m = [a] \<and> ts a = Some 1.5 \<and> ts a \<noteq> Some 1500)"
  using timestamp_epoch_seconds [of action_event
      "\<lparr>action = JString ''Build'', stage = JString ''S'', pipeline = JString ''P'',
        state = JString ''FAILED''\<rparr>" example_platform example_config]
  by (simp add: action_event_def example_platform_def)

section \<open>The renderer does not throw\<close>

text \<open>
  C6: for every event with a \<open>detail\<close> object, the construction of the message does not
  throw and gives exactly one message with exactly one attachment; when the state is
  missing or is none of the six named states, the attachment has the default gray color
  and its text starts with the default warning icon.
\<close>

theorem render_total:
  assumes "detail ev = Some d"
  shows "\<exists>m a. buildSlackMessage pf cfg ev = Inr m \<and> attachments m = [a]
           \<and> (state d \<notin> {JString ''STARTED'', JString ''RESUMED'', JString ''FAILED'',
                            JString ''SUPERSEDED'', JString ''CANCELED'', JString ''SUCCEEDED''}
                \<longrightarrow> color a = ''#d5dbdb''
                    \<and> (\<exists>rest. att_text a = '':grey_exclamation: '' @ rest
                          \<and> rest = (if truthy (action d) then template (action d) @ '' '' else [])
                               @ ''*'' @ template (state d) @ ''*''))"
  by (simp add: build_some [OF assms] severity_def)

theorem render_total_witness:
  "\<exists>m a. buildSlackMessage example_platform example_config pipeline_event_no_state = Inr m
     \<and> attachments m = [a] \<and> color a = ''#d5dbdb''
     \<and> att_text a = '':grey_exclamation: *undefined*''"
  using render_total [of pipeline_event_no_state
      "\<lparr>action = JUndefined, stage = JUndefined, pipeline = JString ''P'',
        state = JUndefined\<rparr>" example_platform example_config]
  by (simp add: pipeline_event_no_state_def)

section \<open>Missing configuration\<close>

text \<open>
  C7: in a process whose configuration has no secret identifier (the module has no other
  source for the webhook URL), every invocation ends at once with the callback called
  with the fixed text \<open>Hook URL has not been set.\<close>; it asks the secret store nothing,
  posts nothing, logs nothing, and leaves the module state as it was at start.
\<close>

theorem no_webhook_source_fails:
  assumes "\<not> truthy (webhookUrlSecretArn cfg)"
    and "r \<in> set (invocations pf cfg init_state invs)"
  shows "r = (init_state, [], Callback (JString ''Hook URL has not been set.''))"
  using assms unconfigured_invocations [of cfg init_state r pf invs]
  by (simp add: init_state_def)

theorem no_webhook_source_fails_witness:
  "invocations example_platform unconfigured init_state
     [\<lparr>inv_event = action_event, inv_secret = text_secret, inv_http = http_reply_of 200 ''OK''\<rparr>,
      \<lparr>inv_event = pipeline_event_no_state, inv_secret = text_secret,
        inv_http = http_reply_of 200 ''OK''\<rparr>]
   = [(init_state, [], Callback (JString ''Hook URL has not been set.'')),
      (init_state, [], Callback (JString ''Hook URL has not been set.''))]"
  using no_webhook_source_fails [where cfg = unconfigured and pf = example_platform
      and r = "hd (invocations example_platform unconfigured init_state
        [\<lparr>inv_event = action_event, inv_secret = text_secret,
           inv_http = http_reply_of 200 ''OK''\<rparr>,
         \<lparr>inv_event = pipeline_event_no_state, inv_secret = text_secret,
           inv_http = http_reply_of 200 ''OK''\<rparr>])"
      and invs = "[\<lparr>inv_event = action_event, inv_secret = text_secret,
           inv_http = http_reply_of 200 ''OK''\<rparr>,
         \<lparr>inv_event = pipeline_event_no_state, inv_secret = text_secret,
           inv_http = http_reply_of 200 ''OK''\<rparr>]"]
  by (simp add: unconfigured_def example_config_def init_state_def handler_def Let_def)

section \<open>The cached webhook URL\<close>

text \<open>
  C8: once an invocation has assigned the webhook URL (the value of \<open>webhookUrl\<close>
  changed), every later invocation of the same process leaves the whole module state as
  it is, makes no call to the secret store, and posts only to the cached URL.
\<close>

theorem webhook_cached_once:
  assumes "handler pf cfg s0 ev sr hr = (s1, fx, out)"
    and "webhookUrl s1 \<noteq> webhookUrl s0"
    and "r \<in> set (invocations pf cfg s1 later)"
  shows "fst r = s1 \<and> (\<forall>e \<in> set (fst (snd r)). \<not> is_secret_call e)
         \<and> (\<forall>u \<in> set (post_urls (fst (snd r))). JString u = webhookUrl s1)"
proof -
  have "truthy (webhookUrl s1)"
    using handler_webhookUrl [of pf cfg s0 ev sr hr] assms(1,2) by simp
  then show ?thesis
    using assms(3) by (rule cached_invocations)
qed

theorem webhook_cached_once_witness:
  "fst (handler example_platform example_config init_state action_event text_secret
          (http_reply_of 200 ''OK''))
     = init_state\<lparr>secret := JString ''hooks.slack.com/services/T/B/X'',
         webhookUrl := JString ''https://hooks.slack.com/services/T/B/X''\<rparr>
   \<and> handler example_platform example_config
         (init_state\<lparr>secret := JString ''hooks.slack.com/services/T/B/X'',
            webhookUrl := JString ''https://hooks.slack.com/services/T/B/X''\<rparr>)
         pipeline_event_no_state (SecretErr ''ResourceNotFoundException'')
         (http_reply_of 404 ''Not Found'')
       = (init_state\<lparr>secret := JString ''hooks.slack.com/services/T/B/X'',
            webhookUrl := JString ''https://hooks.slack.com/services/T/B/X''\<rparr>,
          [HttpsPost ''https://hooks.slack.com/services/T/B/X''
             (projr (buildSlackMessage example_platform example_config pipeline_event_no_state)),
           ConsoleError ''Error posting message to Slack API: 404 - Not Found''],
          Callback JNull)"
proof -
  let ?s1 = "init_state\<lparr>secret := JString ''hooks.slack.com/services/T/B/X'',
               webhookUrl := JString ''https://hooks.slack.com/services/T/B/X''\<rparr>"
  let ?i = "\<lparr>inv_event = pipeline_event_no_state,
              inv_secret = SecretErr ''ResourceNotFoundException'',
              inv_http = http_reply_of 404 ''Not Found''\<rparr>"
  let ?r = "handler example_platform example_config ?s1 pipeline_event_no_state
              (SecretErr ''ResourceNotFoundException'') (http_reply_of 404 ''Not Found'')"
  have n: "number_string 404 = ''404''"
    by (simp add: number_string.simps digit_char_def)
  have b: "detail action_event \<noteq> None" "detail pipeline_event_no_state \<noteq> None"
    by (simp_all add: action_event_def pipeline_event_no_state_def)
  have first: "handler example_platform example_config init_state action_event text_secret
          (http_reply_of 200 ''OK'')
        = (?s1, fst (snd (handler example_platform example_config init_state action_event
                            text_secret (http_reply_of 200 ''OK''))),
           snd (snd (handler example_platform example_config init_state action_event
                            text_secret (http_reply_of 200 ''OK''))))"
    by (simp add: handler_def cacheAndProcess_def Let_def arn_example_config init_state_def
        text_secret_def)
  have changed: "webhookUrl ?s1 \<noteq> webhookUrl init_state"
    by (simp add: init_state_def)
  have mem: "?r \<in> set (invocations example_platform example_config ?s1 [?i])"
    by (simp add: Let_def)
  have same: "fst ?r = ?s1"
    using webhook_cached_once [OF first changed mem] by blast
  obtain m where m: "buildSlackMessage example_platform example_config pipeline_event_no_state = Inr m"
    using build_ex [OF b(2)] by blast
  have rest: "snd ?r = ([HttpsPost ''https://hooks.slack.com/services/T/B/X'' m,
           ConsoleError ''Error posting message to Slack API: 404 - Not Found''],
          Callback JNull)"
    by (simp add: handler_def processEvent_def postMessage_def onResponse_def m
        http_reply_of_def n init_state_def)
  have "?r = (?s1, snd ?r)"
    using same by (metis prod.collapse)
  with rest m first show ?thesis
    by (metis fst_conv sum.sel(2))
qed

section \<open>Determinism of rendering\<close>

text \<open>
  C9: the message built for an event depends only on the event and the configuration:
  whatever the module state and whatever the secret store and the webhook answer, any
  two invocations on the same event that post a message post the same message, the one
  built from the event.
\<close>

theorem rendering_deterministic:
  assumes "m1 \<in> set (posted (fst (snd (handler pf cfg s1 ev sr1 hr1))))"
    and "m2 \<in> set (posted (fst (snd (handler pf cfg s2 ev sr2 hr2))))"
  shows "m1 = m2 \<and> buildSlackMessage pf cfg ev = Inr m1"
  using assms handler_posted [of pf cfg s1 ev sr1 hr1] handler_posted [of pf cfg s2 ev sr2 hr2]
  by auto

theorem rendering_deterministic_witness:
  "posted (fst (snd (handler example_platform example_config init_state action_event
                       text_secret (http_reply_of 200 ''OK''))))
     = posted (fst (snd (handler example_platform example_config
                       (init_state\<lparr>webhookUrl := JString ''https://hooks.slack.com/services/T/B/X''\<rparr>)
                       action_event (SecretErr ''InternalServiceErrorException'')
                       (http_reply_of 503 ''Service Unavailable''))))
   \<and> length (posted (fst (snd (handler example_platform example_config init_state action_event
                       text_secret (http_reply_of 200 ''OK''))))) = 1"
proof -
  let ?p1 = "posted (fst (snd (handler example_platform example_config init_state action_event
                       text_secret (http_reply_of 200 ''OK''))))"
  let ?p2 = "posted (fst (snd (handler example_platform example_config
                       (init_state\<lparr>webhookUrl := JString ''https://hooks.slack.com/services/T/B/X''\<rparr>)
                       action_event (SecretErr ''InternalServiceErrorException'')
                       (http_reply_of 503 ''Service Unavailable''))))"
  obtain m where m: "buildSlackMessage example_platform example_config action_event = Inr m"
    using build_ex [OF detail_action_event] by blast
  have p1: "?p1 = [m]"
    by (simp add: handler_def cacheAndProcess_def processEvent_def postMessage_def
        onResponse_def Let_def m http_reply_of_def init_state_def arn_example_config
        text_secret_def)
  have p2: "?p2 = [m]"
    by (simp add: handler_def processEvent_def postMessage_def onResponse_def m
        http_reply_of_def init_state_def)
  have "hd ?p1 = hd ?p2"
    using rendering_deterministic [of "hd ?p1" example_platform example_config init_state
        action_event text_secret "http_reply_of 200 ''OK''" "hd ?p2"
        "init_state\<lparr>webhookUrl := JString ''https://hooks.slack.com/services/T/B/X''\<rparr>"
        "SecretErr ''InternalServiceErrorException''" "http_reply_of 503 ''Service Unavailable''"]
    by (simp add: p1 p2)
  then show ?thesis
    by (simp add: p1 p2)
qed

section \<open>Empty action\<close>

text \<open>
  C10: an event whose action is the empty string is rendered exactly as the same event
  with no action: as the Stage-level message when the stage is a non-empty string, and as
  the Pipeline-level message otherwise.
\<close>

theorem empty_action_as_absent:
  "buildSlackMessage pf cfg (ev\<lparr>detail := Some (d\<lparr>action := JString []\<rparr>)\<rparr>)
     = buildSlackMessage pf cfg (ev\<lparr>detail := Some (d\<lparr>action := JUndefined\<rparr>)\<rparr>)
   \<and> (\<exists>m a. buildSlackMessage pf cfg (ev\<lparr>detail := Some (d\<lparr>action := JString []\<rparr>)\<rparr>) = Inr m
          \<and> attachments m = [a]
          \<and> att_text a = snd (severity (state d)) @ '' *'' @ template (state d) @ ''*''
          \<and> (if truthy (stage d) then
                title a = template (pipeline d) @ '' | '' @ template (stage d)
                \<and> fallback a = ''The stage \"'' @ template (stage d)
                     @ ''\" for CodePipeline \"'' @ template (pipeline d)
                     @ ''\" in region \"'' @ template (region ev) @ ''\" has ''
                     @ template (state d) @ ''.''
              else
                title a = template (pipeline d)
                \<and> fallback a = ''The CodePipeline \"'' @ template (pipeline d)
                     @ ''\" in region \"'' @ template (region ev) @ ''\" has ''
                     @ template (state d) @ ''.''))"
proof -
  have e: "detail (ev\<lparr>detail := Some (d\<lparr>action := JString []\<rparr>)\<rparr>) = Some (d\<lparr>action := JString []\<rparr>)"
    by simp
  have u: "detail (ev\<lparr>detail := Some (d\<lparr>action := JUndefined\<rparr>)\<rparr>) = Some (d\<lparr>action := JUndefined\<rparr>)"
    by simp
  show ?thesis
    by (simp add: build_some [OF e] build_some [OF u])
qed

theorem empty_action_as_absent_witness:
  "buildSlackMessage example_platform example_config mixed_case_event
     = buildSlackMessage example_platform example_config
         (mixed_case_event\<lparr>detail := Some \<lparr>action = JUndefined, stage = JString ''Deploy'',
            pipeline = JString ''P'', state = JString ''Succeeded''\<rparr>\<rparr>)
   \<and> (\<exists>m a. buildSlackMessage example_platform example_config mixed_case_event = Inr m
          \<and> attachments m = [a] \<and> title a = ''P | Deploy''
          \<and> att_text a = '':grey_exclamation: *Succeeded*'')"
  using empty_action_as_absent [where pf = example_platform and cfg = example_config
      and ev = mixed_case_event
      and d = "\<lparr>action = JString [], stage = JString ''Deploy'', pipeline = JString ''P'',
        state = JString ''Succeeded''\<rparr>"]
  by (simp add: mixed_case_event_def severity_def buildSlackMessage_def)

end
